theory Spec2Isabelle
  imports Complex_Main "HOL-Library.AList"
begin

section \<open>Double-precision arithmetic\<close>

text \<open>
  A Python float is an IEEE 754 binary64 number. A finite float is modelled as the real
  number it denotes, and each arithmetic operation of the source as the exact operation
  followed by rounding to the nearest double, ties to the even significand. A double has
  53 significant bits, the exponent of its last bit is at least \<open>-1074\<close> (the
  subnormal range). Overflow to infinity, infinities and NaN are outside the model;
  comparisons of floats are exact.
\<close>

definition round_half_even :: "real \<Rightarrow> int" where
  "round_half_even x =
     (let f = \<lfloor>x\<rfloor>; d = x - of_int f
      in if d < 1/2 then f
         else if d > 1/2 then f + 1
         else if even f then f else f + 1)"

text \<open>The exponent of the last significant bit of the double nearest to \<open>x\<close>.\<close>

definition binade_exp :: "real \<Rightarrow> int" where
  "binade_exp x = max (\<lfloor>log 2 \<bar>x\<bar>\<rfloor> - 52) (- 1074)"

definition round_double :: "real \<Rightarrow> real" where
  "round_double x =
     (if x = 0 then 0
      else of_int (round_half_even (x / 2 powr of_int (binade_exp x))) *
           2 powr of_int (binade_exp x))"

text \<open>The reals that are doubles.\<close>

definition is_double :: "real \<Rightarrow> bool" where
  "is_double x = (round_double x = x)"

text \<open>Python's \<open>a - b\<close>, \<open>a + b\<close> and \<open>a * b\<close> on floats.\<close>

definition float_sub :: "real \<Rightarrow> real \<Rightarrow> real" where
  "float_sub a b = round_double (a - b)"



section \<open>Circuit breaker (scanner/security/circuit\_breaker.py)\<close>

text \<open>
  Python ints are modelled as \<open>int\<close>. Every function that reads
  \<open>time.monotonic()\<close> takes the reading as its first argument \<open>now\<close>. Each
  method body runs under the object's lock, so a method is one atomic state transformer.
  Calls to the \<open>logging\<close> module do not touch the breaker and are left out.
\<close>

datatype CircuitState = CLOSED | OPEN | HALF_OPEN

record CircuitBreaker =
  name :: string
  failure_threshold :: int
  recovery_timeout :: real
  success_threshold :: int
  state :: CircuitState
  failure_count :: int
  success_count :: int
  last_failure_time :: real

text \<open>The dataclass constructor: the four \<open>init=False\<close> fields take their defaults.\<close>

definition new_CircuitBreaker :: "string \<Rightarrow> int \<Rightarrow> real \<Rightarrow> int \<Rightarrow> CircuitBreaker" where
  "new_CircuitBreaker nm ft rt st =
     \<lparr>name = nm, failure_threshold = ft, recovery_timeout = rt, success_threshold = st,
      state = CLOSED, failure_count = 0, success_count = 0, last_failure_time = 0\<rparr>"

text \<open>
  \<open>_transition_to\<close>: the new state is stored, then CLOSED zeroes both counters,
  HALF\_OPEN zeroes \<open>success_count\<close>, and OPEN has no branch of its own.
\<close>

definition transition_to :: "CircuitState \<Rightarrow> CircuitBreaker \<Rightarrow> CircuitBreaker" where
  "transition_to new_state cb =
     (let cb1 = cb\<lparr>state := new_state\<rparr>
      in if new_state = CLOSED then cb1\<lparr>failure_count := 0, success_count := 0\<rparr>
         else if new_state = HALF_OPEN then cb1\<lparr>success_count := 0\<rparr>
         else cb1)"

definition can_execute :: "real \<Rightarrow> CircuitBreaker \<Rightarrow> bool \<times> CircuitBreaker" where
  "can_execute now cb =
     (if state cb = CLOSED then (True, cb)
      else if state cb = OPEN then
        (let elapsed = float_sub now (last_failure_time cb)
         in if elapsed \<ge> recovery_timeout cb then (True, transition_to HALF_OPEN cb)
            else (False, cb))
      else (True, cb))"

definition record_success :: "CircuitBreaker \<Rightarrow> CircuitBreaker" where
  "record_success cb =
     (let cb1 = cb\<lparr>failure_count := 0\<rparr>
      in if state cb1 = HALF_OPEN then
           (let cb2 = cb1\<lparr>success_count := success_count cb1 + 1\<rparr>
            in if success_count cb2 \<ge> success_threshold cb2 then transition_to CLOSED cb2
               else cb2)
         else cb1)"

definition record_failure :: "real \<Rightarrow> CircuitBreaker \<Rightarrow> CircuitBreaker" where
  "record_failure now cb =
     (let cb1 = cb\<lparr>last_failure_time := now\<rparr>
      in if state cb1 = HALF_OPEN then transition_to OPEN cb1
         else if state cb1 = CLOSED then
           (let cb2 = cb1\<lparr>failure_count := failure_count cb1 + 1\<rparr>
            in if failure_count cb2 \<ge> failure_threshold cb2 then transition_to OPEN cb2
               else cb2)
         else cb1)"

definition reset :: "CircuitBreaker \<Rightarrow> CircuitBreaker" where
  "reset cb = transition_to CLOSED cb"

text \<open>
  What a Python callable can do when called: return a value or raise. The handler in
  \<open>execute\<close> is \<open>except Exception\<close>, so the model keeps apart the exceptions that
  derive from \<open>Exception\<close> (among them \<open>CircuitBreakerError\<close>, declared as a
  subclass of \<open>Exception\<close>, \<open>StopIteration\<close> and \<open>RuntimeError\<close>) and those
  that derive from \<open>BaseException\<close> only (\<open>asyncio.CancelledError\<close>,
  \<open>KeyboardInterrupt\<close>, \<open>SystemExit\<close>).
\<close>

datatype exn =
    CircuitBreakerError string
  | StopIteration
  | RuntimeError string
  | OtherException string
  | BaseExceptionOnly string

fun is_Exception :: "exn \<Rightarrow> bool" where
  "is_Exception (CircuitBreakerError _) = True"
| "is_Exception StopIteration = True"
| "is_Exception (RuntimeError _) = True"
| "is_Exception (OtherException _) = True"
| "is_Exception (BaseExceptionOnly _) = False"

text \<open>
  \<open>execute\<close> is an \<open>async def\<close>. An exception that leaves the body of a
  coroutine reaches the caller as it is, except \<open>StopIteration\<close>, which Python
  replaces by a \<open>RuntimeError\<close>.
\<close>

fun coroutine_boundary :: "exn \<Rightarrow> exn" where
  "coroutine_boundary StopIteration = RuntimeError ''coroutine raised StopIteration''"
| "coroutine_boundary e = e"

text \<open>The calls \<open>execute\<close> makes besides the admission check, in the order made.\<close>

datatype call = Invoke_func | Record_success | Record_failure

text \<open>
  \<open>execute\<close>: \<open>func args\<close> is the outcome of calling (and awaiting) the wrapped
  function, \<open>Inl\<close> an exception it raised. \<open>now\<close> is the clock at the admission
  check, \<open>now'\<close> the clock when a failure is recorded. The result is the outcome of
  \<open>execute\<close> (\<open>Inl\<close> the exception its caller receives), the breaker
  afterwards, and the calls made.
\<close>

definition execute ::
  "real \<Rightarrow> real \<Rightarrow> CircuitBreaker \<Rightarrow> ('arg \<Rightarrow> exn + 'a) \<Rightarrow> 'arg
     \<Rightarrow> (exn + 'a) \<times> CircuitBreaker \<times> call list" where
  "execute now now' cb func args =
     (case can_execute now cb of
        (False, cb1) \<Rightarrow>
          (Inl (coroutine_boundary
                  (CircuitBreakerError
                     (''Circuit '' @ [CHR 0x27] @ name cb1 @ [CHR 0x27] @ '' is open''))),
           cb1, [])
      | (True, cb1) \<Rightarrow>
          (case func args of
             Inr result \<Rightarrow> (Inr result, record_success cb1, [Invoke_func, Record_success])
           | Inl e \<Rightarrow>
               if is_Exception e
               then (Inl (coroutine_boundary e), record_failure now' cb1,
                     [Invoke_func, Record_failure])
               else (Inl (coroutine_boundary e), cb1, [Invoke_func])))"

section \<open>Token bucket (scanner/security/rate\_limiter.py)\<close>











section \<open>Sandbox import policy (scanner/plugin\_loader/\_\_init\_\_.py)\<close>

definition ALLOWED_MODULES :: "string list" where
  "ALLOWED_MODULES =
     [''httpx'', ''requests'', ''json'', ''re'', ''asyncio'', ''datetime'', ''hashlib'',
      ''base64'', ''urllib.parse'', ''socket'', ''ssl'', ''struct'', ''binascii'']"

text \<open>
  \<open>str.split(sep)\<close> for a one-character separator: the pieces between the
  occurrences of \<open>sep\<close>; the result is never empty (\<open>"".split(".") == [""]\<close>).
\<close>

fun str_split :: "char \<Rightarrow> string \<Rightarrow> string list" where
  "str_split sep [] = [[]]"
| "str_split sep (c # cs) =
     (if c = sep then [] # str_split sep cs
      else (case str_split sep cs of
              [] \<Rightarrow> [[c]]
            | w # ws \<Rightarrow> (c # w) # ws))"

definition check_import :: "string \<Rightarrow> bool" where
  "check_import module_name =
     (if module_name \<in> set ALLOWED_MODULES then True
      else (let base_module = hd (str_split (CHR ''.'') module_name)
            in base_module \<in> set ALLOWED_MODULES))"

section \<open>Timeout controller (scanner/security/timeout.py)\<close>

record TimeoutConfig =
  connect :: real
  read :: real
  total_timeout :: real

record TimeoutController =
  default_config :: TimeoutConfig
  custom_timeouts :: "string \<rightharpoonup> TimeoutConfig"

definition set_timeout :: "string \<Rightarrow> TimeoutConfig \<Rightarrow> TimeoutController \<Rightarrow> TimeoutController" where
  "set_timeout key config c = c\<lparr>custom_timeouts := (custom_timeouts c)(key \<mapsto> config)\<rparr>"

text \<open>
  \<open>key\<close> is \<open>str | None\<close>. The test \<open>if key and key in self._custom_timeouts\<close>
  first asks for the truth value of \<open>key\<close>: \<open>None\<close> and the empty string are false.
\<close>

fun truthy :: "string option \<Rightarrow> bool" where
  "truthy None = False"
| "truthy (Some s) = (s \<noteq> [])"

definition get_timeout :: "TimeoutController \<Rightarrow> string option \<Rightarrow> TimeoutConfig" where
  "get_timeout c key =
     (if truthy key
      then (case custom_timeouts c (the key) of
              Some config \<Rightarrow> config
            | None \<Rightarrow> default_config c)
      else default_config c)"

definition clear_timeout :: "string \<Rightarrow> TimeoutController \<Rightarrow> TimeoutController" where
  "clear_timeout key c = c\<lparr>custom_timeouts := (custom_timeouts c)(key := None)\<rparr>"

text \<open>
  \<open>execute_with_timeout\<close> hands the work and the chosen deadline to
  \<open>asyncio.wait_for\<close>, a library function, taken here as the parameter
  \<open>wait_for\<close>.
\<close>

definition execute_with_timeout ::
  "('coro \<Rightarrow> real \<Rightarrow> 'r) \<Rightarrow> TimeoutController \<Rightarrow> 'coro \<Rightarrow> real option \<Rightarrow> string option \<Rightarrow> 'r" where
  "execute_with_timeout wait_for c coro timeout key =
     (case timeout of
        None \<Rightarrow> (let config = get_timeout c key in wait_for coro (total_timeout config))
      | Some t \<Rightarrow> wait_for coro t)"

section \<open>Plugin loader (scanner/plugin\_loader/\_\_init\_\_.py)\<close>

text \<open>
  Only the vulnerability-plugin registry is modelled; the tool registry is a separate
  dictionary that the functions below never read. A path is the string it prints as.
\<close>

record PluginInfo =
  plugin_id :: string
  plugin_name :: string
  plugin_type :: string
  file_path :: string
  md5 :: string
  enabled :: bool
  metadata :: "(string \<times> string) list"
  plugin_instance :: "string option"

text \<open>
  What the loader sees of an imported module: the \<open>__vuln_info__\<close> mapping when the
  module has one, and the attributes \<open>dir(module)\<close> lists, each with what the loader
  tests on it.
\<close>

record module_attr =
  attr_name :: string
  is_class :: bool
  has_verify :: bool

record py_module =
  vuln_info :: "(string \<times> string) list option"
  attrs :: "module_attr list"

datatype import_result = No_spec | Exec_raised string | Loaded py_module

text \<open>
  The world outside the loader: the files (path to content), and the library functions
  the loader calls: \<open>hashlib.md5(...).hexdigest()\<close>, \<open>Path.stem\<close>, and the import
  machinery (\<open>spec_from_file_location\<close>, \<open>module_from_spec\<close>, \<open>exec_module\<close>)
  applied to a module name, a path and the file's content.
\<close>

record loader_env =
  files :: "string \<rightharpoonup> string"
  md5_hex :: "string \<Rightarrow> string"
  stem :: "string \<Rightarrow> string"
  import_file :: "string \<Rightarrow> string \<Rightarrow> string \<Rightarrow> import_result"

text \<open>A reload callback returns (\<open>None\<close>) or raises (\<open>Some\<close> the exception).\<close>

record PluginLoader =
  plugins :: "string \<rightharpoonup> PluginInfo"
  on_reload_callback :: "(string \<Rightarrow> exn option) option"

definition new_PluginLoader :: PluginLoader where
  "new_PluginLoader = \<lparr>plugins = Map.empty, on_reload_callback = None\<rparr>"

definition set_reload_callback :: "(string \<Rightarrow> exn option) \<Rightarrow> PluginLoader \<Rightarrow> PluginLoader" where
  "set_reload_callback callback L = L\<lparr>on_reload_callback := Some callback\<rparr>"

text \<open>The loop over \<open>dir(module)\<close> that stops at the first class with a \<open>verify\<close>.\<close>

fun find_verify_class :: "module_attr list \<Rightarrow> string option" where
  "find_verify_class [] = None"
| "find_verify_class (a # as) =
     (if is_class a \<and> has_verify a then Some (attr_name a) else find_verify_class as)"

text \<open>
  \<open>_load_vuln_plugin\<close>: the result is what the call returns (\<open>Inl\<close> an exception
  that leaves it: the file cannot be opened, or the module's code raises) and the
  loader afterwards.
\<close>

definition load_vuln_plugin ::
  "loader_env \<Rightarrow> string \<Rightarrow> PluginLoader \<Rightarrow> (exn + bool) \<times> PluginLoader" where
  "load_vuln_plugin env path L =
     (case files env path of
        None \<Rightarrow> (Inl (OtherException ''FileNotFoundError''), L)
      | Some content \<Rightarrow>
          (let md5v = md5_hex env content;
               pid = stem env path
           in if (case plugins L pid of None \<Rightarrow> False | Some info \<Rightarrow> md5 info = md5v)
              then (Inr False, L)
              else (case import_file env pid path content of
                      No_spec \<Rightarrow> (Inr False, L)
                    | Exec_raised msg \<Rightarrow> (Inl (OtherException msg), L)
                    | Loaded m \<Rightarrow>
                        (case vuln_info m of
                           None \<Rightarrow> (Inr False, L)
                         | Some vi \<Rightarrow>
                             (let info = \<lparr>plugin_id = pid,
                                          plugin_name = (case map_of vi ''name'' of
                                                           None \<Rightarrow> pid | Some n \<Rightarrow> n),
                                          plugin_type = ''vuln'',
                                          file_path = path,
                                          md5 = md5v,
                                          enabled = True,
                                          metadata = vi,
                                          plugin_instance = find_verify_class (attrs m)\<rparr>
                              in (Inr True, L\<lparr>plugins := (plugins L)(pid \<mapsto> info)\<rparr>))))))"

definition get_plugin :: "PluginLoader \<Rightarrow> string \<Rightarrow> PluginInfo option" where
  "get_plugin L pid = plugins L pid"

text \<open>
  \<open>reload_plugin\<close>: besides the result and the loader afterwards, the arguments of
  the calls made to the reload callback, in order.
\<close>

definition reload_plugin ::
  "loader_env \<Rightarrow> string \<Rightarrow> PluginLoader \<Rightarrow> (exn + bool) \<times> PluginLoader \<times> string list" where
  "reload_plugin env pid L =
     (case plugins L pid of
        None \<Rightarrow> (Inr False, L, [])
      | Some plugin_info \<Rightarrow>
          (let path = file_path plugin_info
           in if files env path = None
              then (Inr False, L\<lparr>plugins := (plugins L)(pid := None)\<rparr>, [])
              else (case load_vuln_plugin env path L of
                      (Inl e, L1) \<Rightarrow> (Inl e, L1, [])
                    | (Inr False, L1) \<Rightarrow> (Inr False, L1, [])
                    | (Inr True, L1) \<Rightarrow>
                        (case on_reload_callback L1 of
                           None \<Rightarrow> (Inr True, L1, [])
                         | Some callback \<Rightarrow>
                             (case callback pid of
                                None \<Rightarrow> (Inr True, L1, [pid])
                              | Some e \<Rightarrow> (Inl e, L1, [pid]))))))"

section \<open>Audit log (scanner/security/audit\_log.py)\<close>

datatype AuditEventType =
    LOGIN | LOGOUT | LOGIN_FAILED
  | TASK_CREATE | TASK_START | TASK_STOP | TASK_DELETE | TASK_COMPLETE | TASK_FAIL
  | SCAN_START | SCAN_STOP | VULN_FOUND
  | PLUGIN_LOAD | PLUGIN_RELOAD | PLUGIN_ERROR
  | CONFIG_CHANGE
  | SYSTEM_START | SYSTEM_STOP | ERROR
  | DATA_ACCESS | DATA_EXPORT | DATA_DELETE

fun event_type_value :: "AuditEventType \<Rightarrow> string" where
  "event_type_value LOGIN = ''login''"
| "event_type_value LOGOUT = ''logout''"
| "event_type_value LOGIN_FAILED = ''login_failed''"
| "event_type_value TASK_CREATE = ''task_create''"
| "event_type_value TASK_START = ''task_start''"
| "event_type_value TASK_STOP = ''task_stop''"
| "event_type_value TASK_DELETE = ''task_delete''"
| "event_type_value TASK_COMPLETE = ''task_complete''"
| "event_type_value TASK_FAIL = ''task_fail''"
| "event_type_value SCAN_START = ''scan_start''"
| "event_type_value SCAN_STOP = ''scan_stop''"
| "event_type_value VULN_FOUND = ''vuln_found''"
| "event_type_value PLUGIN_LOAD = ''plugin_load''"
| "event_type_value PLUGIN_RELOAD = ''plugin_reload''"
| "event_type_value PLUGIN_ERROR = ''plugin_error''"
| "event_type_value CONFIG_CHANGE = ''config_change''"
| "event_type_value SYSTEM_START = ''system_start''"
| "event_type_value SYSTEM_STOP = ''system_stop''"
| "event_type_value ERROR = ''error''"
| "event_type_value DATA_ACCESS = ''data_access''"
| "event_type_value DATA_EXPORT = ''data_export''"
| "event_type_value DATA_DELETE = ''data_delete''"

text \<open>The severity \<open>ERROR\<close> is written \<open>SEVERITY_ERROR\<close>, the event type keeps the name.\<close>

datatype AuditSeverity = INFO | WARNING | SEVERITY_ERROR | CRITICAL

fun severity_value :: "AuditSeverity \<Rightarrow> string" where
  "severity_value INFO = ''info''"
| "severity_value WARNING = ''warning''"
| "severity_value SEVERITY_ERROR = ''error''"
| "severity_value CRITICAL = ''critical''"

text \<open>
  \<open>details\<close> is a dictionary with string keys, kept in insertion order with values of
  any type \<open>'v\<close>; \<open>timestamp\<close> is a \<open>datetime\<close>, of any type \<open>'t\<close>.
\<close>

record ('v, 't) AuditEvent =
  event_type :: AuditEventType
  severity :: AuditSeverity
  message :: string
  user_id :: "string option"
  source_ip :: "string option"
  target :: "string option"
  details :: "(string \<times> 'v) list"
  timestamp :: 't

text \<open>The values of the dictionary \<open>to_dict\<close> builds.\<close>

datatype 'v dict_value = Null | Str string | Dict "(string \<times> 'v) list"

fun opt_str :: "string option \<Rightarrow> 'v dict_value" where
  "opt_str None = Null"
| "opt_str (Some s) = Str s"

text \<open>
  The library functions of the serialisation: \<open>datetime.isoformat\<close>, and
  \<open>json.dumps\<close>, which returns the text or raises (a \<open>TypeError\<close> on a value
  it cannot serialise).
\<close>

record ('v, 't) json_lib =
  isoformat :: "'t \<Rightarrow> string"
  json_dumps :: "(string \<times> 'v dict_value) list \<Rightarrow> exn + string"

definition to_dict :: "('v, 't) json_lib \<Rightarrow> ('v, 't) AuditEvent \<Rightarrow> (string \<times> 'v dict_value) list" where
  "to_dict lib e =
     [(''event_type'', Str (event_type_value (event_type e))),
      (''severity'', Str (severity_value (severity e))),
      (''message'', Str (message e)),
      (''user_id'', opt_str (user_id e)),
      (''source_ip'', opt_str (source_ip e)),
      (''target'', opt_str (target e)),
      (''details'', Dict (details e)),
      (''timestamp'', Str (isoformat lib (timestamp e)))]"

definition to_json :: "('v, 't) json_lib \<Rightarrow> ('v, 't) AuditEvent \<Rightarrow> exn + string" where
  "to_json lib e = json_dumps lib (to_dict lib e)"

text \<open>
  A filter returns a truth value. A sink handler returns (\<open>None\<close>) or raises an
  \<open>Exception\<close> (\<open>Some\<close> its text), which \<open>log\<close> catches.
\<close>

record ('v, 't) AuditLogger =
  log_dir :: string
  max_file_size :: int
  max_files :: int
  enable_console :: bool
  enable_file :: bool
  current_file :: "string option"
  file_handle :: "string option"
  filters :: "(('v, 't) AuditEvent \<Rightarrow> bool) list"
  handlers :: "(('v, 't) AuditEvent \<Rightarrow> string option) list"
  event_count :: int
  events_by_type :: "(string \<times> int) list"

definition new_AuditLogger :: "string \<Rightarrow> int \<Rightarrow> int \<Rightarrow> bool \<Rightarrow> bool \<Rightarrow> ('v, 't) AuditLogger" where
  "new_AuditLogger dir mfs mf ec ef =
     \<lparr>log_dir = dir, max_file_size = mfs, max_files = mf, enable_console = ec,
      enable_file = ef, current_file = None, file_handle = None, filters = [],
      handlers = [], event_count = 0, events_by_type = []\<rparr>"

text \<open>
  What one call of \<open>log\<close> reads from outside the logger: the wall clock
  (\<open>datetime.utcnow()\<close> for the event, its \<open>%Y-%m-%d\<close> rendering at the rotation
  check), the size of a file when it exists, whether \<open>open\<close> and \<open>write\<close> fail,
  the files \<open>audit-*.log\<close> of the directory sorted by modification time, newest
  first, and whether \<open>unlink\<close> fails on a file.
\<close>

record 't audit_env =
  utcnow :: 't
  today :: string
  stat_size :: "string \<Rightarrow> int option"
  open_error :: "string option"
  write_error :: "string option"
  glob_by_mtime :: "string list"
  unlink_error :: "string \<Rightarrow> string option"

datatype log_level = LOG_INFO | LOG_WARNING | LOG_ERROR | LOG_CRITICAL

text \<open>What a call does to the world outside the logger, in order.\<close>

datatype ('v, 't) effect =
    Handler_called nat "('v, 't) AuditEvent"
  | Diagnostic string
  | Console_line log_level string
  | File_closed string
  | File_opened string
  | File_unlinked string
  | File_written string string

text \<open>A Python slice \<open>xs[k:]\<close>: a negative \<open>k\<close> counts from the end.\<close>

definition slice_from :: "int \<Rightarrow> 'a list \<Rightarrow> 'a list" where
  "slice_from k xs = (if 0 \<le> k then drop (nat k) xs else drop (nat (int (length xs) + k)) xs)"

fun unlink_all :: "'t audit_env \<Rightarrow> string list \<Rightarrow> ('v, 't) effect list" where
  "unlink_all env [] = []"
| "unlink_all env (old_file # rest) =
     (case unlink_error env old_file of
        None \<Rightarrow> File_unlinked old_file
      | Some msg \<Rightarrow> Diagnostic (''Failed to delete old audit log: '' @ msg)) # unlink_all env rest"

definition cleanup_old_files :: "'t audit_env \<Rightarrow> ('v, 't) AuditLogger \<Rightarrow> ('v, 't) effect list" where
  "cleanup_old_files env L =
     (if \<not> enable_file L then []
      else unlink_all env (slice_from (max_files L) (glob_by_mtime env)))"

definition rotate_if_needed ::
  "'t audit_env \<Rightarrow> ('v, 't) AuditLogger \<Rightarrow> exn option \<times> ('v, 't) AuditLogger \<times> ('v, 't) effect list" where
  "rotate_if_needed env L =
     (if \<not> enable_file L then (None, L, [])
      else
        (let log_file = log_dir L @ ''/audit-'' @ today env @ ''.log'';
             should_rotate =
               (if current_file L \<noteq> Some log_file then True
                else (case stat_size env log_file of
                        None \<Rightarrow> False
                      | Some sz \<Rightarrow> sz \<ge> max_file_size L))
         in if should_rotate then
              (let closed = (case file_handle L of None \<Rightarrow> [] | Some h \<Rightarrow> [File_closed h]);
                   L1 = L\<lparr>current_file := Some log_file, file_handle := None\<rparr>
               in case open_error env of
                    Some msg \<Rightarrow> (Some (OtherException msg), L1, closed)
                  | None \<Rightarrow>
                      (let L2 = L1\<lparr>file_handle := Some log_file\<rparr>
                       in (None, L2, closed @ [File_opened log_file] @ cleanup_old_files env L2)))
            else (None, L, [])))"

definition write_file ::
  "'t audit_env \<Rightarrow> string \<Rightarrow> ('v, 't) AuditLogger
     \<Rightarrow> exn option \<times> ('v, 't) AuditLogger \<times> ('v, 't) effect list" where
  "write_file env line L =
     (case rotate_if_needed env L of
        (Some e, L1, eff) \<Rightarrow> (Some e, L1, eff)
      | (None, L1, eff) \<Rightarrow>
          (case file_handle L1 of
             None \<Rightarrow> (None, L1, eff)
           | Some h \<Rightarrow>
               (case write_error env of
                  None \<Rightarrow> (None, L1, eff @ [File_written h (line @ [CHR 0x0A])])
                | Some msg \<Rightarrow>
                    (None, L1, eff @ [Diagnostic (''Failed to write audit log: '' @ msg)]))))"

fun console_level :: "AuditSeverity \<Rightarrow> log_level" where
  "console_level INFO = LOG_INFO"
| "console_level WARNING = LOG_WARNING"
| "console_level SEVERITY_ERROR = LOG_ERROR"
| "console_level CRITICAL = LOG_CRITICAL"

definition write_console :: "('v, 't) AuditEvent \<Rightarrow> ('v, 't) effect list" where
  "write_console e =
     [Console_line (console_level (severity e))
        (''[AUDIT] '' @ event_type_value (event_type e) @ '': '' @ message e)]"

definition write_event ::
  "('v, 't) json_lib \<Rightarrow> 't audit_env \<Rightarrow> ('v, 't) AuditEvent \<Rightarrow> ('v, 't) AuditLogger
     \<Rightarrow> exn option \<times> ('v, 't) AuditLogger \<times> ('v, 't) effect list" where
  "write_event lib env e L =
     (case to_json lib e of
        Inl err \<Rightarrow> (Some err, L, [])
      | Inr log_line \<Rightarrow>
          (let con = (if enable_console L then write_console e else [])
           in if enable_file L then
                (case write_file env log_line L of (r, L1, eff) \<Rightarrow> (r, L1, con @ eff))
              else (None, L, con)))"

text \<open>The filter loop: the first filter that returns false ends it.\<close>

fun passes_filters :: "(('v, 't) AuditEvent \<Rightarrow> bool) list \<Rightarrow> ('v, 't) AuditEvent \<Rightarrow> bool" where
  "passes_filters [] e = True"
| "passes_filters (filter_func # rest) e = (if \<not> filter_func e then False else passes_filters rest e)"

text \<open>The handler loop; \<open>i\<close> is the position of the handler in the list.\<close>

fun run_handlers ::
  "nat \<Rightarrow> (('v, 't) AuditEvent \<Rightarrow> string option) list \<Rightarrow> ('v, 't) AuditEvent \<Rightarrow> ('v, 't) effect list" where
  "run_handlers i [] e = []"
| "run_handlers i (handler # rest) e =
     Handler_called i e #
     (case handler e of
        None \<Rightarrow> []
      | Some msg \<Rightarrow> [Diagnostic (''Audit handler error: '' @ msg)]) @ run_handlers (Suc i) rest e"

text \<open>The arguments of one call of \<open>log\<close>, with what the call reads from outside.\<close>

record ('v, 't) log_call =
  arg_event_type :: AuditEventType
  arg_message :: string
  arg_severity :: AuditSeverity
  arg_user_id :: "string option"
  arg_source_ip :: "string option"
  arg_target :: "string option"
  arg_details :: "(string \<times> 'v) list option"
  arg_env :: "'t audit_env"

text \<open>The event \<open>log\<close> constructs; \<open>details or {}\<close> turns \<open>None\<close> into the empty dictionary.\<close>

definition make_event :: "('v, 't) log_call \<Rightarrow> ('v, 't) AuditEvent" where
  "make_event c =
     \<lparr>event_type = arg_event_type c, severity = arg_severity c, message = arg_message c,
      user_id = arg_user_id c, source_ip = arg_source_ip c, target = arg_target c,
      details = (case arg_details c of None \<Rightarrow> [] | Some d \<Rightarrow> d),
      timestamp = utcnow (arg_env c)\<rparr>"

text \<open>\<open>d[k] = d.get(k, 0) + 1\<close> on an insertion-ordered dictionary.\<close>

definition bump :: "string \<Rightarrow> (string \<times> int) list \<Rightarrow> (string \<times> int) list" where
  "bump k d = AList.update k ((case map_of d k of None \<Rightarrow> 0 | Some c \<Rightarrow> c) + 1) d"

text \<open>
  \<open>log\<close>: the exception that leaves the call if any (from \<open>json.dumps\<close>, or
  from \<open>open\<close> at a rotation), the logger afterwards, and the effects of the call.
\<close>

definition log_event ::
  "('v, 't) json_lib \<Rightarrow> ('v, 't) log_call \<Rightarrow> ('v, 't) AuditLogger
     \<Rightarrow> exn option \<times> ('v, 't) AuditLogger \<times> ('v, 't) effect list" where
  "log_event lib c L =
     (let event = make_event c
      in if \<not> passes_filters (filters L) event then (None, L, [])
         else
           (let L1 = L\<lparr>event_count := event_count L + 1\<rparr>;
                event_key = event_type_value (arg_event_type c);
                L2 = L1\<lparr>events_by_type := bump event_key (events_by_type L1)\<rparr>;
                handled = run_handlers 0 (handlers L2) event
            in case write_event lib (arg_env c) event L2 of
                 (r, L3, eff) \<Rightarrow> (r, L3, handled @ eff)))"

definition add_filter :: "(('v, 't) AuditEvent \<Rightarrow> bool) \<Rightarrow> ('v, 't) AuditLogger \<Rightarrow> ('v, 't) AuditLogger" where
  "add_filter filter_func L = L\<lparr>filters := filters L @ [filter_func]\<rparr>"

definition add_handler ::
  "(('v, 't) AuditEvent \<Rightarrow> string option) \<Rightarrow> ('v, 't) AuditLogger \<Rightarrow> ('v, 't) AuditLogger" where
  "add_handler handler L = L\<lparr>handlers := handlers L @ [handler]\<rparr>"

text \<open>\<open>get_stats\<close>: the two counters of the snapshot.\<close>

definition total_events :: "('v, 't) AuditLogger \<Rightarrow> int" where
  "total_events L = event_count L"

definition sum_events_by_type :: "('v, 't) AuditLogger \<Rightarrow> int" where
  "sum_events_by_type L = sum_list (map snd (events_by_type L))"

text \<open>A history of a logger: calls of \<open>log\<close>, \<open>add_filter\<close> and \<open>add_handler\<close>.\<close>

datatype ('v, 't) audit_op =
    Log "('v, 't) log_call"
  | Add_filter "('v, 't) AuditEvent \<Rightarrow> bool"
  | Add_handler "('v, 't) AuditEvent \<Rightarrow> string option"

fun apply_audit_op :: "('v, 't) json_lib \<Rightarrow> ('v, 't) audit_op \<Rightarrow> ('v, 't) AuditLogger \<Rightarrow> ('v, 't) AuditLogger" where
  "apply_audit_op lib (Log c) L = fst (snd (log_event lib c L))"
| "apply_audit_op lib (Add_filter f) L = add_filter f L"
| "apply_audit_op lib (Add_handler h) L = add_handler h L"

fun run_audit :: "('v, 't) json_lib \<Rightarrow> ('v, 't) audit_op list \<Rightarrow> ('v, 't) AuditLogger \<Rightarrow> ('v, 't) AuditLogger" where
  "run_audit lib [] L = L"
| "run_audit lib (x # xs) L = run_audit lib xs (apply_audit_op lib x L)"

text \<open>
  The number of \<open>log\<close> calls of a history in which no filter registered at the time of
  the call returned false, \<open>fs\<close> being the filters registered before the history.
\<close>

fun accepted_calls :: "(('v, 't) AuditEvent \<Rightarrow> bool) list \<Rightarrow> ('v, 't) audit_op list \<Rightarrow> int" where
  "accepted_calls fs [] = 0"
| "accepted_calls fs (Log c # xs) =
     (if list_all (\<lambda>f. f (make_event c)) fs then 1 else 0) + accepted_calls fs xs"
| "accepted_calls fs (Add_filter f # xs) = accepted_calls (fs @ [f]) xs"
| "accepted_calls fs (Add_handler h # xs) = accepted_calls fs xs"

section \<open>Sample inputs\<close>

text \<open>
  A breaker with the default parameters, half open after one success, an open one and
  a new one.
\<close>

definition half_open_breaker :: CircuitBreaker where
  "half_open_breaker =
     \<lparr>name = ''default'', failure_threshold = 5, recovery_timeout = 30, success_threshold = 3,
      state = HALF_OPEN, failure_count = 0, success_count = 1, last_failure_time = 2\<rparr>"

definition open_breaker :: CircuitBreaker where
  "open_breaker =
     \<lparr>name = ''default'', failure_threshold = 5, recovery_timeout = 30, success_threshold = 3,
      state = OPEN, failure_count = 5, success_count = 0, last_failure_time = 2\<rparr>"

definition closed_breaker :: CircuitBreaker where
  "closed_breaker = new_CircuitBreaker ''default'' 5 30 3"

text \<open>
  The breaker \<open>CircuitBreaker(failure_threshold=1, recovery_timeout=0.0)\<close> after
  \<open>record_failure()\<close> at clock 1, \<open>can_execute()\<close> at clock 2 and one
  \<open>record_success()\<close>.
\<close>

definition reached_half_open :: CircuitBreaker where
  "reached_half_open =
     record_success (snd (can_execute 2 (record_failure 1 (new_CircuitBreaker ''default'' 1 0 3))))"

text \<open>The doubles that the literals \<open>30.7\<close> and \<open>0.7\<close> denote.\<close>

definition double_30_7 :: real where
  "double_30_7 = 8641281785017139 / 2 ^ 48"

definition double_0_7 :: real where
  "double_0_7 = 3152519739159347 / 2 ^ 52"

text \<open>An open breaker whose last failure was at clock \<open>0.7\<close>, with timeout \<open>30.0\<close>.\<close>

definition boundary_breaker :: CircuitBreaker where
  "boundary_breaker =
     \<lparr>name = ''default'', failure_threshold = 5, recovery_timeout = 30, success_threshold = 3,
      state = OPEN, failure_count = 5, success_count = 0, last_failure_time = double_0_7\<rparr>"


text \<open>A loader that has loaded \<open>plugins/vulns/test.py\<close>, the file still as it was.\<close>

definition sample_info :: PluginInfo where
  "sample_info =
     \<lparr>plugin_id = ''test'', plugin_name = ''Test'', plugin_type = ''vuln'',
      file_path = ''plugins/vulns/test.py'', md5 = ''h1'', enabled = True,
      metadata = [(''name'', ''Test'')], plugin_instance = Some ''X''\<rparr>"

definition sample_loader_env :: loader_env where
  "sample_loader_env =
     \<lparr>files = [''plugins/vulns/test.py'' \<mapsto> ''code''],
      md5_hex = (\<lambda>c. if c = ''code'' then ''h1'' else ''h2''),
      stem = (\<lambda>p. if p = ''plugins/vulns/test.py'' then ''test'' else p),
      import_file = (\<lambda>n p c. Loaded \<lparr>vuln_info = Some [(''name'', ''Test'')], attrs = []\<rparr>)\<rparr>"

definition sample_loader :: PluginLoader where
  "sample_loader =
     \<lparr>plugins = [''test'' \<mapsto> sample_info],
      on_reload_callback = Some (\<lambda>p. None)\<rparr>"

text \<open>A logger without sinks and the filter of the test suite, which drops INFO events.\<close>

definition sample_lib :: "(string, nat) json_lib" where
  "sample_lib =
     \<lparr>isoformat = (\<lambda>t. ''1970-01-01T00:00:00''), json_dumps = (\<lambda>d. Inr ''{}'')\<rparr>"

definition sample_audit_env :: "nat audit_env" where
  "sample_audit_env =
     \<lparr>utcnow = 0, today = ''1970-01-01'', stat_size = (\<lambda>p. None), open_error = None,
      write_error = None, glob_by_mtime = [], unlink_error = (\<lambda>p. None)\<rparr>"

definition sample_call :: "AuditSeverity \<Rightarrow> (string, nat) log_call" where
  "sample_call sev =
     \<lparr>arg_event_type = TASK_CREATE, arg_message = ''event'', arg_severity = sev,
      arg_user_id = None, arg_source_ip = None, arg_target = None, arg_details = None,
      arg_env = sample_audit_env\<rparr>"

definition not_info :: "(string, nat) AuditEvent \<Rightarrow> bool" where
  "not_info e = (severity e \<noteq> INFO)"

definition sample_logger :: "(string, nat) AuditLogger" where
  "sample_logger = add_filter not_info (new_AuditLogger ''logs/audit'' 10485760 10 True False)"

section \<open>Properties of the double-precision arithmetic\<close>

lemma round_half_even_of_int: "round_half_even (of_int k) = k"
  by (simp add: round_half_even_def)



lemma round_double_0: "round_double 0 = 0"
  by (simp add: round_double_def)



lemma powr_int_diff:
  "e \<le> e' \<Longrightarrow> (2::real) powr of_int e' = of_int (2 ^ nat (e' - e)) * 2 powr of_int e"
proof -
  assume "e \<le> e'"
  then have "of_int e' = of_int e + real (nat (e' - e))" by simp
  then have "(2::real) powr of_int e' = 2 powr of_int e * 2 powr real (nat (e' - e))"
    by (simp only: powr_add)
  also have "(2::real) powr real (nat (e' - e)) = 2 ^ nat (e' - e)"
    by (simp add: powr_realpow)
  finally show ?thesis by simp
qed


lemma round_double_fixed:
  "x = of_int K * 2 powr of_int (binade_exp x) \<Longrightarrow> round_double x = x"
proof -
  assume a: "x = of_int K * 2 powr of_int (binade_exp x)"
  define p :: real where "p = 2 powr of_int (binade_exp x)"
  have p: "0 < p" by (simp add: p_def)
  from a have xp: "x = of_int K * p" by (simp add: p_def)
  have "x / p = of_int K" unfolding xp using p by simp
  then have "round_half_even (x / p) = K" by (simp add: round_half_even_of_int)
  then have "of_int (round_half_even (x / p)) * p = x" using xp by simp
  then show ?thesis by (simp add: round_double_def p_def)
qed

lemma floor_log2_bounds:
  assumes "x \<noteq> 0"
  shows "2 powr of_int \<lfloor>log 2 \<bar>x\<bar>\<rfloor> \<le> \<bar>x\<bar> \<and> \<bar>x\<bar> < 2 powr of_int (\<lfloor>log 2 \<bar>x\<bar>\<rfloor> + 1)"
proof -
  have "0 < \<bar>x\<bar>" using assms by simp
  from floor_log_eq_powr_iff [OF this, of 2 "\<lfloor>log 2 \<bar>x\<bar>\<rfloor>"] show ?thesis by simp
qed

text \<open>
  An integer of at most 53 bits, scaled by a power of two not below the subnormal
  exponent, is a double.
\<close>

lemma is_double_scaled:
  assumes M: "\<bar>M\<bar> \<le> 2 ^ 53" and e: "- 1074 \<le> e"
  shows "is_double (of_int M * 2 powr of_int e)"
proof (cases "M = 0")
  case True
  then show ?thesis by (simp add: is_double_def round_double_0)
next
  case False
  define x :: real where "x = of_int M * 2 powr of_int e"
  define k where "k = \<lfloor>log 2 \<bar>x\<bar>\<rfloor>"
  have x0: "x \<noteq> 0" using False by (simp add: x_def)
  have absx: "\<bar>x\<bar> = of_int \<bar>M\<bar> * 2 powr of_int e" by (simp add: x_def abs_mult)
  have "of_int \<bar>M\<bar> \<le> (2::real) ^ 53"
    using M by (metis of_int_le_iff of_int_numeral of_int_power)
  then have "\<bar>x\<bar> \<le> 2 ^ 53 * 2 powr of_int e"
    unfolding absx by (intro mult_right_mono) simp_all
  also have "\<dots> = 2 powr of_int (53 + e)"
    by (simp add: powr_add powr_numeral)
  finally have ub: "\<bar>x\<bar> \<le> 2 powr of_int (53 + e)" .
  from floor_log2_bounds [OF x0] have lb: "2 powr of_int k \<le> \<bar>x\<bar>" by (simp add: k_def)
  from lb ub have "(2::real) powr of_int k \<le> 2 powr of_int (53 + e)" by linarith
  then have k53: "k \<le> 53 + e" by simp
  have bx: "binade_exp x = max (k - 52) (- 1074)" by (simp add: binade_exp_def k_def)
  show ?thesis
  proof (cases "binade_exp x \<le> e")
    case True
    from powr_int_diff [OF True]
    have "x = of_int (M * 2 ^ nat (e - binade_exp x)) * 2 powr of_int (binade_exp x)"
      by (simp add: x_def)
    then have "round_double x = x" by (rule round_double_fixed)
    then show ?thesis by (simp add: is_double_def x_def)
  next
    case False
    with bx e k53 have keq: "k = 53 + e" and bxe: "binade_exp x = e + 1" by auto
    from lb keq have "(2::real) powr of_int (53 + e) \<le> of_int \<bar>M\<bar> * 2 powr of_int e"
      by (simp add: absx)
    then have "2 ^ 53 * 2 powr of_int e \<le> of_int \<bar>M\<bar> * (2::real) powr of_int e"
      by (simp add: powr_add powr_numeral)
    then have "(2::real) ^ 53 \<le> of_int \<bar>M\<bar>" by simp
    then have "2 ^ 53 \<le> \<bar>M\<bar>" by (metis of_int_le_iff of_int_numeral of_int_power)
    with M have "\<bar>M\<bar> = 2 ^ 53" by simp
    then have "even M"
      by (metis even_abs_add_iff even_add even_numeral even_power zero_less_numeral)
    then obtain M' where M': "M = 2 * M'" by (auto elim: evenE)
    have "(2::real) powr of_int (e + 1) = 2 * 2 powr of_int e"
      by (simp add: powr_add)
    then have xe: "x = of_int M' * 2 powr of_int (e + 1)"
      by (simp add: x_def M')
    have "x = of_int M' * 2 powr of_int (binade_exp x)"
      by (subst bxe) (rule xe)
    then have "round_double x = x" by (rule round_double_fixed)
    then show ?thesis by (simp add: is_double_def x_def)
  qed
qed

lemma is_double_of_int: "\<bar>k\<bar> \<le> 2 ^ 53 \<Longrightarrow> is_double (of_int k)"
  using is_double_scaled [of k 0] by simp


text \<open>The rounding of a value whose binade is known.\<close>

lemma round_double_eval:
  assumes "2 powr of_int k \<le> \<bar>x\<bar>" "\<bar>x\<bar> < 2 powr of_int (k + 1)" "- 1022 \<le> k"
  shows "round_double x =
           of_int (round_half_even (x / 2 powr of_int (k - 52))) * 2 powr of_int (k - 52)"
proof -
  have "0 < \<bar>x\<bar>" using assms(1) by (smt (verit) powr_gt_zero)
  from floor_log_eq_powr_iff [OF this, of 2 k] assms have "\<lfloor>log 2 \<bar>x\<bar>\<rfloor> = k" by simp
  then have "binade_exp x = k - 52" using assms(3) by (simp add: binade_exp_def)
  then show ?thesis using \<open>0 < \<bar>x\<bar>\<close> by (simp add: round_double_def)
qed

lemma round_double_of_int: "\<bar>k\<bar> \<le> 2 ^ 53 \<Longrightarrow> round_double (of_int k) = of_int k"
  using is_double_of_int [of k] by (simp add: is_double_def)

lemma is_double_samples: "is_double double_30_7" "is_double double_0_7"
  using is_double_scaled [of 8641281785017139 "- 48"] is_double_scaled [of 3152519739159347 "- 52"]
  by (simp_all add: double_30_7_def double_0_7_def powr_minus_divide)

lemma float_sub_30_7_0_7: "float_sub double_30_7 double_0_7 = 30"
  using round_double_eval [of 4 "double_30_7 - double_0_7"]
  by (simp add: float_sub_def double_30_7_def double_0_7_def round_half_even_def powr_minus_divide)



section \<open>Properties of the circuit breaker\<close>

text \<open>
  In state HALF\_OPEN one \<open>record_failure()\<close> moves the breaker to OPEN and sets
  \<open>last_failure_time\<close>; every other field keeps its value.
\<close>

lemma record_failure_half_open:
  "state cb = HALF_OPEN \<Longrightarrow>
     record_failure now cb = cb\<lparr>state := OPEN, last_failure_time := now\<rparr>"
  by (simp add: record_failure_def transition_to_def)

lemma reached_half_open_eq:
  "reached_half_open =
     \<lparr>name = ''default'', failure_threshold = 1, recovery_timeout = 0, success_threshold = 3,
      state = HALF_OPEN, failure_count = 0, success_count = 1, last_failure_time = 1\<rparr>"
  using round_double_of_int [of 1]
  by (simp add: reached_half_open_def new_CircuitBreaker_def record_failure_def
        can_execute_def record_success_def transition_to_def float_sub_def)

text \<open>
  Claim C1 asks that one \<open>record_failure()\<close> in state HALF\_OPEN with
  \<open>success_count = 1\<close> moves the breaker to OPEN, sets \<open>last_failure_time\<close> to
  the clock reading and resets \<open>success_count\<close> to 0. The code at such a breaker,
  reached through its own methods: the state becomes OPEN, \<open>last_failure_time\<close> is
  the clock reading, and \<open>success_count\<close> is still 1.
\<close>

theorem record_failure_keeps_success_count:
  "state reached_half_open = HALF_OPEN \<and>
   success_count reached_half_open = 1 \<and>
   state (record_failure 3 reached_half_open) = OPEN \<and>
   last_failure_time (record_failure 3 reached_half_open) = 3 \<and>
   success_count (record_failure 3 reached_half_open) = 1"
  by (simp add: reached_half_open_eq record_failure_def transition_to_def)

text \<open>
  Claim C2, as the code has it: in state OPEN, with \<open>elapsed\<close> the float difference
  \<open>now - last_failure_time\<close> that the code computes (the exact difference rounded
  to the nearest double), \<open>can_execute()\<close> returns false and changes nothing while
  \<open>elapsed < recovery_timeout\<close>; once \<open>elapsed \<ge> recovery_timeout\<close> the same
  call moves the breaker to HALF\_OPEN (zeroing \<open>success_count\<close>) and returns true.
  The float difference is the exact one whenever the exact one is a double.
\<close>

theorem can_execute_open:
  "state cb = OPEN \<Longrightarrow>
     (float_sub now (last_failure_time cb) < recovery_timeout cb \<longrightarrow>
        can_execute now cb = (False, cb)) \<and>
     (float_sub now (last_failure_time cb) \<ge> recovery_timeout cb \<longrightarrow>
        can_execute now cb = (True, cb\<lparr>state := HALF_OPEN, success_count := 0\<rparr>)) \<and>
     (is_double (now - last_failure_time cb) \<longrightarrow>
        float_sub now (last_failure_time cb) = now - last_failure_time cb)"
  by (simp add: can_execute_def transition_to_def float_sub_def is_double_def)

theorem can_execute_open_witness:
  "state open_breaker = OPEN \<and>
   is_double (10 - last_failure_time open_breaker) \<and>
   float_sub 10 (last_failure_time open_breaker) = 10 - last_failure_time open_breaker \<and>
   float_sub 10 (last_failure_time open_breaker) < recovery_timeout open_breaker \<and>
   can_execute 10 open_breaker = (False, open_breaker) \<and>
   float_sub 32 (last_failure_time open_breaker) \<ge> recovery_timeout open_breaker \<and>
   can_execute 32 open_breaker = (True, open_breaker\<lparr>state := HALF_OPEN, success_count := 0\<rparr>)"
  using can_execute_open [of open_breaker 10] can_execute_open [of open_breaker 32]
        round_double_of_int [of 8] round_double_of_int [of 30]
  by (simp add: open_breaker_def float_sub_def is_double_def)

text \<open>
  With the exact difference the claim fails at the boundary: at clock \<open>30.7\<close>, last
  failure at \<open>0.7\<close> and timeout \<open>30.0\<close>, the exact difference of the two doubles
  is below 30, yet the float difference is 30 and the call admits the request.
\<close>

theorem can_execute_open_counterexample:
  "is_double double_30_7 \<and> is_double (last_failure_time boundary_breaker) \<and>
   state boundary_breaker = OPEN \<and>
   double_30_7 - last_failure_time boundary_breaker < recovery_timeout boundary_breaker \<and>
   can_execute double_30_7 boundary_breaker =
     (True, boundary_breaker\<lparr>state := HALF_OPEN, success_count := 0\<rparr>)"
proof -
  have "double_30_7 - double_0_7 < 30"
    by (simp add: double_30_7_def double_0_7_def)
  then show ?thesis
    using is_double_samples float_sub_30_7_0_7
    by (simp add: boundary_breaker_def can_execute_def transition_to_def)
qed

text \<open>
  Claim C6, as the code has it: \<open>execute\<close> raises \<open>CircuitBreakerError\<close> without
  invoking the function exactly when \<open>can_execute()\<close> returns false, and then the
  breaker is left as it was: the rejection is not counted as a failure. Otherwise the
  function is invoked. When it returns, a success is recorded and its result returned.
  When it raises an instance of \<open>Exception\<close>, a failure is recorded and the same
  exception reaches the caller, except \<open>StopIteration\<close>, which reaches the caller as
  \<open>RuntimeError\<close>; a \<open>CircuitBreakerError\<close> raised by the function itself is such
  an exception, recorded as a failure and received by the caller as a
  \<open>CircuitBreakerError\<close>. When it raises an exception that derives from
  \<open>BaseException\<close> only, that exception leaves \<open>execute\<close> with neither a success
  nor a failure recorded.
\<close>

theorem execute_spec:
  "(((\<exists>msg. fst (execute now now' cb func args) = Inl (CircuitBreakerError msg)) \<and>
      Invoke_func \<notin> set (snd (snd (execute now now' cb func args))))
     = (\<not> fst (can_execute now cb))) \<and>
   (\<not> fst (can_execute now cb) \<longrightarrow>
      execute now now' cb func args =
        (Inl (CircuitBreakerError (''Circuit '' @ [CHR 0x27] @ name cb @ [CHR 0x27] @ '' is open'')),
         cb, [])) \<and>
   (fst (can_execute now cb) \<longrightarrow>
      (\<forall>v. func args = Inr v \<longrightarrow>
         execute now now' cb func args =
           (Inr v, record_success (snd (can_execute now cb)), [Invoke_func, Record_success])) \<and>
      (\<forall>e. func args = Inl e \<and> is_Exception e \<and> e \<noteq> StopIteration \<longrightarrow>
         execute now now' cb func args =
           (Inl e, record_failure now' (snd (can_execute now cb)), [Invoke_func, Record_failure])) \<and>
      (\<forall>msg. func args = Inl (CircuitBreakerError msg) \<longrightarrow>
         execute now now' cb func args =
           (Inl (CircuitBreakerError msg), record_failure now' (snd (can_execute now cb)),
            [Invoke_func, Record_failure])) \<and>
      (func args = Inl StopIteration \<longrightarrow>
         execute now now' cb func args =
           (Inl (RuntimeError ''coroutine raised StopIteration''),
            record_failure now' (snd (can_execute now cb)), [Invoke_func, Record_failure])) \<and>
      (\<forall>e. func args = Inl e \<and> \<not> is_Exception e \<longrightarrow>
         execute now now' cb func args = (Inl e, snd (can_execute now cb), [Invoke_func])))"
proof -
  have b: "\<And>e. e \<noteq> StopIteration \<Longrightarrow> coroutine_boundary e = e"
    by (case_tac e) simp_all
  have b': "\<And>e. \<not> is_Exception e \<Longrightarrow> coroutine_boundary e = e"
    by (case_tac e) simp_all
  obtain ok cb1 where c: "can_execute now cb = (ok, cb1)"
    by (cases "can_execute now cb") auto
  have r: "\<not> ok \<Longrightarrow> cb1 = cb"
    using c by (auto simp: can_execute_def Let_def split: if_splits)
  show ?thesis
  proof (cases ok)
    case False
    with c r show ?thesis by (simp add: execute_def)
  next
    case True
    with c show ?thesis
      by (cases "func args") (auto simp: execute_def b b')
  qed
qed

theorem execute_spec_witness:
  "\<not> fst (can_execute 10 open_breaker) \<and>
   execute 10 11 open_breaker (\<lambda>u::unit. Inr (1::int)) () =
     (Inl (CircuitBreakerError (''Circuit '' @ [CHR 0x27] @ ''default'' @ [CHR 0x27] @ '' is open'')),
      open_breaker, []) \<and>
   fst (can_execute 10 half_open_breaker) \<and>
   execute 10 11 half_open_breaker (\<lambda>u::unit. Inr (1::int)) () =
     (Inr 1, half_open_breaker\<lparr>success_count := 2\<rparr>, [Invoke_func, Record_success]) \<and>
   is_Exception (OtherException ''ValueError'') \<and>
   execute 10 11 half_open_breaker (\<lambda>u::unit. (Inl (OtherException ''ValueError'') :: exn + int)) () =
     (Inl (OtherException ''ValueError''),
      half_open_breaker\<lparr>state := OPEN, last_failure_time := 11\<rparr>, [Invoke_func, Record_failure]) \<and>
   execute 10 11 half_open_breaker (\<lambda>u::unit. (Inl StopIteration :: exn + int)) () =
     (Inl (RuntimeError ''coroutine raised StopIteration''),
      half_open_breaker\<lparr>state := OPEN, last_failure_time := 11\<rparr>, [Invoke_func, Record_failure]) \<and>
   \<not> is_Exception (BaseExceptionOnly ''CancelledError'') \<and>
   execute 10 11 half_open_breaker
     (\<lambda>u::unit. (Inl (BaseExceptionOnly ''CancelledError'') :: exn + int)) () =
     (Inl (BaseExceptionOnly ''CancelledError''), half_open_breaker, [Invoke_func])"
  using execute_spec [of 10 11 open_breaker "\<lambda>u::unit. Inr (1::int)" "()"]
        execute_spec [of 10 11 half_open_breaker "\<lambda>u::unit. Inr (1::int)" "()"]
        execute_spec [of 10 11 half_open_breaker
                        "\<lambda>u::unit. (Inl (OtherException ''ValueError'') :: exn + int)" "()"]
        execute_spec [of 10 11 half_open_breaker "\<lambda>u::unit. (Inl StopIteration :: exn + int)" "()"]
        execute_spec [of 10 11 half_open_breaker
                        "\<lambda>u::unit. (Inl (BaseExceptionOnly ''CancelledError'') :: exn + int)" "()"]
        round_double_of_int [of 8]
  by (simp add: open_breaker_def half_open_breaker_def can_execute_def record_success_def
        record_failure_def transition_to_def float_sub_def)

text \<open>
  The claim as stated fails in three places. A function that raises
  \<open>asyncio.CancelledError\<close> (not an \<open>Exception\<close>) is invoked and no failure is
  recorded. A function on a closed breaker that raises a \<open>CircuitBreakerError\<close> gives
  the caller the very exception a rejection gives, and it is counted as a failure. A
  function that raises \<open>StopIteration\<close> has a failure recorded, but the caller
  receives a \<open>RuntimeError\<close>, not the same exception.
\<close>

theorem execute_counterexample:
  "execute 10 11 half_open_breaker
     (\<lambda>u::unit. (Inl (BaseExceptionOnly ''CancelledError'') :: exn + int)) () =
     (Inl (BaseExceptionOnly ''CancelledError''), half_open_breaker, [Invoke_func]) \<and>
   execute 10 11 closed_breaker
     (\<lambda>u::unit. (Inl (CircuitBreakerError
        (''Circuit '' @ [CHR 0x27] @ ''default'' @ [CHR 0x27] @ '' is open'')) :: exn + int)) () =
     (fst (execute 10 11 open_breaker (\<lambda>u::unit. Inr (1::int)) ()),
      closed_breaker\<lparr>failure_count := 1, last_failure_time := 11\<rparr>,
      [Invoke_func, Record_failure]) \<and>
   execute 10 11 closed_breaker (\<lambda>u::unit. (Inl StopIteration :: exn + int)) () =
     (Inl (RuntimeError ''coroutine raised StopIteration''),
      closed_breaker\<lparr>failure_count := 1, last_failure_time := 11\<rparr>,
      [Invoke_func, Record_failure])"
  using round_double_of_int [of 8]
  by (simp add: execute_def can_execute_def half_open_breaker_def closed_breaker_def
        open_breaker_def new_CircuitBreaker_def record_failure_def float_sub_def)

section \<open>Properties of the token bucket\<close>













section \<open>Properties of the sandbox policy\<close>

lemma str_split_nonempty: "str_split sep s \<noteq> []"
  by (induction s) (auto split: list.splits)

text \<open>The first piece of a split is the text before the first separator.\<close>

lemma hd_str_split: "hd (str_split sep s) = takeWhile (\<lambda>c. c \<noteq> sep) s"
  by (induction s) (auto simp: str_split_nonempty split: list.splits)

text \<open>
  Claim C9: \<open>check_import(n)\<close> is true exactly when \<open>n\<close> is in
  \<open>ALLOWED_MODULES\<close> or the part of \<open>n\<close> before its first \<open>.\<close> is; so
  \<open>httpx\<close> and \<open>urllib.parse\<close> are allowed, \<open>os\<close> and \<open>os.path\<close> are not.
\<close>

theorem check_import_spec:
  "check_import n =
     (n \<in> set ALLOWED_MODULES \<or> takeWhile (\<lambda>c. c \<noteq> CHR ''.'') n \<in> set ALLOWED_MODULES) \<and>
   check_import ''httpx'' = True \<and>
   check_import ''urllib.parse'' = True \<and>
   check_import ''os'' = False \<and>
   check_import ''os.path'' = False"
proof -
  have "check_import n =
     (n \<in> set ALLOWED_MODULES \<or> takeWhile (\<lambda>c. c \<noteq> CHR ''.'') n \<in> set ALLOWED_MODULES)"
    by (simp add: check_import_def hd_str_split)
  moreover have "check_import ''httpx'' = True" "check_import ''urllib.parse'' = True"
    by (simp_all add: check_import_def ALLOWED_MODULES_def)
  moreover have "check_import ''os'' = False" "check_import ''os.path'' = False"
    by (simp_all add: check_import_def ALLOWED_MODULES_def)
  ultimately show ?thesis by blast
qed

section \<open>Properties of the timeout controller\<close>

text \<open>
  Claim C10: after \<open>set_timeout("", cfg)\<close> the override is stored under the empty
  key, yet \<open>get_timeout("")\<close> returns the default config, and
  \<open>execute_with_timeout(work, timeout=None, key="")\<close> waits with the default
  config's total as its deadline.
\<close>

theorem empty_key_override_unreachable:
  "custom_timeouts (set_timeout [] cfg c) [] = Some cfg \<and>
   get_timeout (set_timeout [] cfg c) (Some []) = default_config c \<and>
   execute_with_timeout wait_for (set_timeout [] cfg c) coro None (Some []) =
     wait_for coro (total_timeout (default_config c))"
  by (simp add: set_timeout_def get_timeout_def execute_with_timeout_def)

text \<open>For comparison, an override under a non-empty key is the one returned.\<close>

lemma get_timeout_nonempty_key:
  "key \<noteq> [] \<Longrightarrow> get_timeout (set_timeout key cfg c) (Some key) = cfg"
  by (simp add: set_timeout_def get_timeout_def)

section \<open>Properties of the plugin loader\<close>

text \<open>
  The loader stores a plugin under the stem of the path it was loaded from, and
  \<open>reload_plugin\<close> only deletes or reloads: every registered plugin's key is the
  stem of its \<open>file_path\<close>, whatever the loader has done before.
\<close>

lemma load_vuln_plugin_keys:
  assumes "load_vuln_plugin env path L = (r, L')"
      and "\<forall>pid info. plugins L pid = Some info \<longrightarrow> stem env (file_path info) = pid"
  shows "\<forall>pid info. plugins L' pid = Some info \<longrightarrow> stem env (file_path info) = pid"
  using assms
  by (auto simp: load_vuln_plugin_def Let_def
           split: option.splits if_splits import_result.splits)

lemma reload_plugin_keys:
  assumes "reload_plugin env p L = (r, L', calls)"
      and "\<forall>pid info. plugins L pid = Some info \<longrightarrow> stem env (file_path info) = pid"
  shows "\<forall>pid info. plugins L' pid = Some info \<longrightarrow> stem env (file_path info) = pid"
proof (cases "plugins L p")
  case None
  with assms show ?thesis by (simp add: reload_plugin_def)
next
  case (Some info0)
  show ?thesis
  proof (cases "files env (file_path info0) = None")
    case True
    with Some assms show ?thesis
      by (auto simp: reload_plugin_def split: if_splits)
  next
    case False
    obtain r1 L1 where l: "load_vuln_plugin env (file_path info0) L = (r1, L1)"
      by (cases "load_vuln_plugin env (file_path info0) L") auto
    from load_vuln_plugin_keys [OF l assms(2)]
    have k: "\<forall>pid info. plugins L1 pid = Some info \<longrightarrow> stem env (file_path info) = pid" .
    have "L' = L1"
      using assms(1) Some False l
      by (auto simp: reload_plugin_def Let_def split: sum.splits bool.splits option.splits)
    with k show ?thesis by simp
  qed
qed

text \<open>
  Claim C5: for a plugin registered (under the stem of its file path) whose file
  content still has the MD5 stored at the last load, \<open>reload_plugin\<close> returns false,
  leaves the loader as it was (so \<open>PluginInfo.md5\<close> too) and makes no call to the
  reload callback; and loading that file again is a no-op that returns false.
\<close>

theorem reload_unchanged_is_noop:
  assumes "plugins L pid = Some info"
      and "stem env (file_path info) = pid"
      and "files env (file_path info) = Some content"
      and "md5_hex env content = md5 info"
  shows "reload_plugin env pid L = (Inr False, L, []) \<and>
         load_vuln_plugin env (file_path info) L = (Inr False, L)"
  using assms by (simp add: reload_plugin_def load_vuln_plugin_def)

theorem reload_unchanged_is_noop_witness:
  "plugins sample_loader ''test'' = Some sample_info \<and>
   stem sample_loader_env (file_path sample_info) = ''test'' \<and>
   files sample_loader_env (file_path sample_info) = Some ''code'' \<and>
   md5_hex sample_loader_env ''code'' = md5 sample_info \<and>
   reload_plugin sample_loader_env ''test'' sample_loader = (Inr False, sample_loader, []) \<and>
   load_vuln_plugin sample_loader_env (file_path sample_info) sample_loader =
     (Inr False, sample_loader)"
  using reload_unchanged_is_noop
          [of sample_loader "''test''" sample_info sample_loader_env "''code''"]
  by (simp add: sample_loader_env_def sample_loader_def sample_info_def)

text \<open>
  For comparison, once the content of the file has changed the same call reloads:
  it returns true, stores the new MD5 and calls the callback once with the plugin id.
\<close>

lemma reload_changed_example:
  "reload_plugin (sample_loader_env\<lparr>files := [''plugins/vulns/test.py'' \<mapsto> ''code2'']\<rparr>)
     ''test'' sample_loader =
   (Inr True,
    sample_loader\<lparr>plugins := [''test'' \<mapsto> sample_info\<lparr>md5 := ''h2'', plugin_instance := None\<rparr>]\<rparr>,
    [''test''])"
  by (simp add: reload_plugin_def load_vuln_plugin_def sample_loader_env_def
        sample_loader_def sample_info_def Let_def)

section \<open>Properties of the audit logger\<close>

lemma passes_filters_all: "passes_filters fs e = list_all (\<lambda>f. f e) fs"
  by (induction fs) auto

lemma sum_snd_update:
  "sum_list (map snd (AList.update k v d)) =
     sum_list (map snd d) - (case map_of d k of None \<Rightarrow> 0 | Some c \<Rightarrow> c) + (v::int)"
  by (induction d) auto

lemma sum_bump: "sum_list (map snd (bump k d)) = sum_list (map snd d) + 1"
  by (simp add: bump_def sum_snd_update split: option.splits)

text \<open>The write path touches neither the counters nor the filters.\<close>

lemma rotate_if_needed_counts:
  "rotate_if_needed env L = (r, L', eff) \<Longrightarrow>
     event_count L' = event_count L \<and> events_by_type L' = events_by_type L \<and>
     filters L' = filters L"
  by (auto simp: rotate_if_needed_def Let_def split: if_splits option.splits)

lemma write_file_counts:
  "write_file env line L = (r, L', eff) \<Longrightarrow>
     event_count L' = event_count L \<and> events_by_type L' = events_by_type L \<and>
     filters L' = filters L"
  by (auto simp: write_file_def split: prod.splits option.splits dest: rotate_if_needed_counts)

lemma write_event_counts:
  "write_event lib env e L = (r, L', eff) \<Longrightarrow>
     event_count L' = event_count L \<and> events_by_type L' = events_by_type L \<and>
     filters L' = filters L"
  by (auto simp: write_event_def Let_def split: sum.splits if_splits prod.splits
           dest: write_file_counts)

text \<open>
  When \<open>json.dumps\<close> raises, the error leaves \<open>log\<close> after the counters have
  moved and the handlers have run, and before any console or file output.
\<close>

lemma log_event_json_error:
  assumes "passes_filters (filters L) (make_event c)"
      and "to_json lib (make_event c) = Inl err"
  shows "log_event lib c L =
           (Some err,
            L\<lparr>event_count := event_count L + 1,
              events_by_type := bump (event_type_value (arg_event_type c)) (events_by_type L)\<rparr>,
            run_handlers 0 (handlers L) (make_event c))"
  using assms by (simp add: log_event_def write_event_def Let_def)

lemma log_event_dropped:
  "\<not> passes_filters (filters L) (make_event c) \<Longrightarrow> log_event lib c L = (None, L, [])"
  by (simp add: log_event_def Let_def)

lemma log_event_counted:
  assumes "passes_filters (filters L) (make_event c)"
  shows "event_count (fst (snd (log_event lib c L))) = event_count L + 1 \<and>
         sum_list (map snd (events_by_type (fst (snd (log_event lib c L))))) =
           sum_list (map snd (events_by_type L)) + 1 \<and>
         filters (fst (snd (log_event lib c L))) = filters L"
proof -
  let ?L2 = "L\<lparr>event_count := event_count L + 1,
               events_by_type := bump (event_type_value (arg_event_type c)) (events_by_type L)\<rparr>"
  obtain r L3 eff where w: "write_event lib (arg_env c) (make_event c) ?L2 = (r, L3, eff)"
    by (cases "write_event lib (arg_env c) (make_event c) ?L2") auto
  from write_event_counts [OF w]
  have "event_count L3 = event_count L + 1"
       "events_by_type L3 = bump (event_type_value (arg_event_type c)) (events_by_type L)"
       "filters L3 = filters L"
    by simp_all
  moreover have "fst (snd (log_event lib c L)) = L3"
    using assms w by (simp add: log_event_def Let_def)
  ultimately show ?thesis by (simp add: sum_bump)
qed

lemma run_audit_counts:
  "event_count (run_audit lib ops L) = event_count L + accepted_calls (filters L) ops \<and>
   sum_list (map snd (events_by_type (run_audit lib ops L))) =
     sum_list (map snd (events_by_type L)) + accepted_calls (filters L) ops"
proof (induction ops arbitrary: L)
  case Nil
  then show ?case by simp
next
  case (Cons x xs)
  show ?case
  proof (cases x)
    case (Log c)
    show ?thesis
    proof (cases "passes_filters (filters L) (make_event c)")
      case True
      from log_event_counted [OF True, of lib] Cons.IH [of "fst (snd (log_event lib c L))"] True Log
      show ?thesis by (simp add: passes_filters_all)
    next
      case False
      with Cons.IH [of L] Log show ?thesis
        by (simp add: log_event_dropped passes_filters_all)
    qed
  next
    case (Add_filter f)
    with Cons.IH [of "add_filter f L"] show ?thesis by (simp add: add_filter_def)
  next
    case (Add_handler h)
    with Cons.IH [of "add_handler h L"] show ?thesis by (simp add: add_handler_def)
  qed
qed

text \<open>
  Claim C7: after any history of a new logger, \<open>total_events\<close> and the sum over
  \<open>events_by_type\<close> both equal the number of \<open>log()\<close> calls in which no registered
  filter returned false; and a \<open>log()\<close> call for which some registered filter returns
  false leaves the logger unchanged (no counter moves), calls no handler and writes
  nothing.
\<close>

theorem audit_counters:
  "total_events (run_audit lib ops (new_AuditLogger dir mfs mf ec ef)) = accepted_calls [] ops \<and>
   sum_events_by_type (run_audit lib ops (new_AuditLogger dir mfs mf ec ef)) =
     accepted_calls [] ops \<and>
   ((\<exists>f \<in> set (filters L). \<not> f (make_event c)) \<longrightarrow> log_event lib c L = (None, L, []))"
proof -
  have "(\<exists>f \<in> set (filters L). \<not> f (make_event c)) \<longrightarrow> log_event lib c L = (None, L, [])"
    by (auto simp: log_event_dropped passes_filters_all list_all_iff)
  then show ?thesis
    using run_audit_counts [of lib ops "new_AuditLogger dir mfs mf ec ef"]
    by (simp add: total_events_def sum_events_by_type_def new_AuditLogger_def)
qed

theorem audit_counters_witness:
  "(\<exists>f \<in> set (filters sample_logger). \<not> f (make_event (sample_call INFO))) \<and>
   log_event sample_lib (sample_call INFO) sample_logger = (None, sample_logger, []) \<and>
   total_events (run_audit sample_lib
      [Log (sample_call INFO), Add_filter not_info, Log (sample_call INFO),
       Log (sample_call SEVERITY_ERROR), Log (sample_call WARNING)]
      (new_AuditLogger ''logs/audit'' 10485760 10 True False)) = 3 \<and>
   sum_events_by_type (run_audit sample_lib
      [Log (sample_call INFO), Add_filter not_info, Log (sample_call INFO),
       Log (sample_call SEVERITY_ERROR), Log (sample_call WARNING)]
      (new_AuditLogger ''logs/audit'' 10485760 10 True False)) = 3"
  using audit_counters [of sample_lib
      "[Log (sample_call INFO), Add_filter not_info, Log (sample_call INFO),
        Log (sample_call SEVERITY_ERROR), Log (sample_call WARNING)]"
      "''logs/audit''" 10485760 10 True False sample_logger "sample_call INFO"]
  by (simp add: sample_logger_def add_filter_def new_AuditLogger_def not_info_def
        make_event_def sample_call_def)

end
